theory Spec2Isabelle
  imports Main "HOL-Library.Word"
begin

section \<open>The vocal processor of main.py\<close>

text \<open>
  The program is one function, \<^verbatim>\<open>process_vocals_for_phonk\<close>, that calls
  routines of librosa, numpy and pydub in a fixed order inside one
  \<^verbatim>\<open>try\<close> block with two handlers. None of those routines is part of the
  program: they are taken as parameters (the record \<open>lib\<close> below), each with the
  arguments the program passes and a result that may be an exception. The type
  \<open>'f\<close> stands for the floating-point numbers of the routines; no arithmetic on
  it is assumed.
\<close>

subsection \<open>Exceptions\<close>

text \<open>
  The handlers tell three kinds of exception apart: \<^verbatim>\<open>FileNotFoundError\<close>,
  any other subclass of \<^verbatim>\<open>Exception\<close>, and what is outside
  \<^verbatim>\<open>Exception\<close> (\<^verbatim>\<open>KeyboardInterrupt\<close>, \<^verbatim>\<open>SystemExit\<close>), which no
  handler of the program catches. The string is \<^verbatim>\<open>str(e)\<close>.
\<close>

datatype exn =
    FileNotFoundError string
  | Exception string
  | BaseException string

subsection \<open>Files, audio segments and the world\<close>

type_synonym path = string

text \<open>A file on disk: the container format, its header fields and its payload.\<close>

record audio_file =
  container :: string
  nchannels :: nat
  sampwidth :: nat
  framerate :: nat
  payload :: "8 word list"

type_synonym fs = "path \<rightharpoonup> audio_file"

text \<open>
  pydub's \<^verbatim>\<open>AudioSegment\<close> as the program builds it: raw bytes with the frame
  rate, the sample width in bytes and the channel count.
\<close>

record audio_segment =
  raw_data :: "8 word list"
  frame_rate :: nat
  sample_width :: nat
  channels :: nat

text \<open>What a run can read and change: the files and the lines printed so far.\<close>

record world =
  files :: fs
  stdout :: "string list"

subsection \<open>The external routines\<close>

record 'f lib =
  librosa_load :: "fs \<Rightarrow> path \<Rightarrow> exn + ('f list \<times> nat)"
    \<comment> \<open>\<^verbatim>\<open>librosa.load(input_path, sr=None)\<close>: the samples and the native rate\<close>
  librosa_beat_track :: "'f list \<Rightarrow> nat \<Rightarrow> exn + 'f"
    \<comment> \<open>\<^verbatim>\<open>librosa.beat.beat_track(y=y, sr=sr)\<close>, first component\<close>
  float_format_2f :: "'f \<Rightarrow> exn + string"
    \<comment> \<open>\<^verbatim>\<open>format(original_tempo, '.2f')\<close>\<close>
  float_truediv :: "'f \<Rightarrow> 'f \<Rightarrow> exn + 'f"
    \<comment> \<open>\<^verbatim>\<open>original_tempo / target_bpm\<close>\<close>
  librosa_time_stretch :: "'f list \<Rightarrow> 'f \<Rightarrow> exn + 'f list"
    \<comment> \<open>\<^verbatim>\<open>librosa.effects.time_stretch(y=y, rate=stretch_ratio)\<close>\<close>
  float_str :: "'f \<Rightarrow> string"
    \<comment> \<open>\<^verbatim>\<open>str(target_bpm)\<close> of a Python float\<close>
  librosa_pitch_shift :: "'f list \<Rightarrow> nat \<Rightarrow> int \<Rightarrow> exn + 'f list"
    \<comment> \<open>\<^verbatim>\<open>librosa.effects.pitch_shift(y=y_stretched, sr=sr, n_steps=pitch_shift)\<close>\<close>
  np_multiply :: "'f list \<Rightarrow> int \<Rightarrow> exn + 'f list"
    \<comment> \<open>\<^verbatim>\<open>y_shifted * 32767\<close>\<close>
  np_astype_int16 :: "'f list \<Rightarrow> exn + 16 word list"
    \<comment> \<open>\<^verbatim>\<open>.astype(np.int16)\<close>\<close>
  np_tobytes :: "16 word list \<Rightarrow> 8 word list"
    \<comment> \<open>\<^verbatim>\<open>.tobytes()\<close>\<close>
  seg_normalize :: "audio_segment \<Rightarrow> exn + audio_segment"
    \<comment> \<open>\<^verbatim>\<open>processed_audio.normalize()\<close>\<close>
  seg_export :: "audio_segment \<Rightarrow> path \<Rightarrow> string \<Rightarrow> fs \<Rightarrow> exn option \<times> fs"
    \<comment> \<open>\<^verbatim>\<open>processed_audio.export(output_path, format="wav")\<close>: the files afterwards,
        and the exception when it raised\<close>

text \<open>\<^verbatim>\<open>np.int16\<close> has an item size of two bytes.\<close>

definition int16_itemsize :: nat where
  "int16_itemsize = 2"

subsection \<open>Python's \<^verbatim>\<open>str\<close> of an integer\<close>

definition digit_char :: "nat \<Rightarrow> char" where
  "digit_char d = char_of (48 + d)"

function str_nat :: "nat \<Rightarrow> string" where
  "str_nat n = (if n < 10 then [digit_char n] else str_nat (n div 10) @ [digit_char (n mod 10)])"
  by pat_completeness auto
termination
  by (relation "measure id") auto

declare str_nat.simps [simp del]

definition str_int :: "int \<Rightarrow> string" where
  "str_int i = (if i < 0 then CHR ''-'' # str_nat (nat (- i)) else str_nat (nat i))"

subsection \<open>Statements that may raise\<close>

text \<open>
  A statement takes the world and gives its result, or the exception it raised,
  with the world as it is then: what was printed before an exception stays printed.
\<close>

type_synonym 'a stmt = "world \<Rightarrow> (exn + 'a) \<times> world"

definition seq :: "'a stmt \<Rightarrow> ('a \<Rightarrow> 'b stmt) \<Rightarrow> 'b stmt" where
  "seq m k w = (case m w of (Inl e, w') \<Rightarrow> (Inl e, w') | (Inr x, w') \<Rightarrow> k x w')"

definition call :: "exn + 'a \<Rightarrow> 'a stmt" where
  "call r w = (r, w)"

definition py_print :: "string \<Rightarrow> unit stmt" where
  "py_print s w = (Inr (), w\<lparr>stdout := stdout w @ [s]\<rparr>)"

definition load_stmt :: "'f lib \<Rightarrow> path \<Rightarrow> ('f list \<times> nat) stmt" where
  "load_stmt L input_path w = (librosa_load L (files w) input_path, w)"

definition export_stmt :: "'f lib \<Rightarrow> audio_segment \<Rightarrow> path \<Rightarrow> string \<Rightarrow> unit stmt" where
  "export_stmt L seg output_path fmt w =
     (case seg_export L seg output_path fmt (files w) of
        (None, fs') \<Rightarrow> (Inr (), w\<lparr>files := fs'\<rparr>)
      | (Some e, fs') \<Rightarrow> (Inl e, w\<lparr>files := fs'\<rparr>))"

subsection \<open>The program\<close>

text \<open>The body of the \<^verbatim>\<open>try\<close> block, lines 44 to 92.\<close>

definition try_body :: "'f lib \<Rightarrow> path \<Rightarrow> path \<Rightarrow> 'f \<Rightarrow> int \<Rightarrow> unit stmt" where
  "try_body L input_path output_path target_bpm pitch_shift =
     seq (load_stmt L input_path) (\<lambda>(y, sr).
     seq (py_print (''Loaded audio file: '' @ input_path @ '' with a sample rate of ''
                    @ str_nat sr @ '' Hz.'')) (\<lambda>_.
     seq (call (librosa_beat_track L y sr)) (\<lambda>original_tempo.
     seq (call (float_format_2f L original_tempo)) (\<lambda>tempo_2f.
     seq (py_print (''Estimated original tempo: '' @ tempo_2f @ '' BPM.'')) (\<lambda>_.
     seq (call (float_truediv L original_tempo target_bpm)) (\<lambda>stretch_ratio.
     seq (call (librosa_time_stretch L y stretch_ratio)) (\<lambda>y_stretched.
     seq (py_print (''Time-stretched audio to approximately '' @ float_str L target_bpm
                    @ '' BPM.'')) (\<lambda>_.
     seq (call (librosa_pitch_shift L y_stretched sr pitch_shift)) (\<lambda>y_shifted.
     seq (py_print (''Pitch-shifted audio by '' @ str_int pitch_shift @ '' semitones.'')) (\<lambda>_.
     seq (call (np_multiply L y_shifted 32767)) (\<lambda>scaled.
     seq (call (np_astype_int16 L scaled)) (\<lambda>y_shifted_int16.
     seq (call (seg_normalize L
            \<lparr>raw_data = np_tobytes L y_shifted_int16,
             frame_rate = sr,
             sample_width = int16_itemsize,
             channels = 1\<rparr>)) (\<lambda>processed_audio.
     seq (py_print (''Exporting final processed vocal track to '' @ output_path @ ''...'')) (\<lambda>_.
     seq (export_stmt L processed_audio output_path ''wav'') (\<lambda>_.
     py_print ''Vocal processing complete! Check the new file.'')))))))))))))))"

text \<open>
  The function: the first \<^verbatim>\<open>print\<close>, the \<^verbatim>\<open>try\<close> block and its two handlers.
  The result is the exception that leaves the function, \<open>None\<close> when it returns.
\<close>

definition process_vocals_for_phonk ::
  "'f lib \<Rightarrow> path \<Rightarrow> path \<Rightarrow> 'f \<Rightarrow> int \<Rightarrow> world \<Rightarrow> exn option \<times> world" where
  "process_vocals_for_phonk L input_path output_path target_bpm pitch_shift w =
     (case seq (py_print ''Starting vocal processing for phonk...'')
             (\<lambda>_. try_body L input_path output_path target_bpm pitch_shift) w of
        (Inr _, w') \<Rightarrow> (None, w')
      | (Inl (FileNotFoundError m), w') \<Rightarrow>
          (None, w'\<lparr>stdout := stdout w' @
             [''Error: The audio file at '' @ [CHR 0x27] @ input_path @ [CHR 0x27]
              @ '' was not found. Please ensure it exists.'']\<rparr>)
      | (Inl (Exception m), w') \<Rightarrow>
          (None, w'\<lparr>stdout := stdout w' @ [''An unexpected error occurred: '' @ m]\<rparr>)
      | (Inl (BaseException m), w') \<Rightarrow> (Some (BaseException m), w'))"

subsection \<open>What the program expects of the external routines\<close>

text \<open>
  The loader raises \<^verbatim>\<open>FileNotFoundError\<close> when no file is at the path it is given.
\<close>

definition loader_reports_missing :: "'f lib \<Rightarrow> bool" where
  "loader_reports_missing L \<longleftrightarrow>
     (\<forall>fs p. fs p = None \<longrightarrow> (\<exists>m. librosa_load L fs p = Inl (FileNotFoundError m)))"

text \<open>
  Normalising changes the samples of a segment, not its frame rate, sample width
  or channel count.
\<close>

definition normalize_keeps_format :: "'f lib \<Rightarrow> bool" where
  "normalize_keeps_format L \<longleftrightarrow>
     (\<forall>seg seg'. seg_normalize L seg = Inr seg' \<longrightarrow>
        frame_rate seg' = frame_rate seg \<and> sample_width seg' = sample_width seg
        \<and> channels seg' = channels seg)"

text \<open>
  An export that returns has left, at the path, a file in the format asked for whose
  header carries the segment's channel count, sample width and frame rate.
\<close>

definition export_writes_segment :: "'f lib \<Rightarrow> bool" where
  "export_writes_segment L \<longleftrightarrow>
     (\<forall>seg p fmt fs fs'. seg_export L seg p fmt fs = (None, fs') \<longrightarrow>
        (\<exists>f. fs' p = Some f \<and> container f = fmt \<and> nchannels f = channels seg
             \<and> sampwidth f = sample_width seg \<and> framerate f = frame_rate seg))"



subsection \<open>A stand-in for the external routines\<close>

text \<open>
  A small executable library on integers, to run the program on concrete files:
  a file decodes to its payload bytes, the tempo is 120, stretching repeats or
  drops nothing, and exporting stores the segment under the format asked for.
\<close>

definition stub_lib :: "int lib" where
  "stub_lib = \<lparr>
     librosa_load = (\<lambda>fs p. case fs p of
         None \<Rightarrow> Inl (FileNotFoundError (''[Errno 2] No such file or directory: '' @ p))
       | Some f \<Rightarrow> Inr (map uint (payload f), framerate f)),
     librosa_beat_track = (\<lambda>y sr. Inr 120),
     float_format_2f = (\<lambda>x. Inr (str_int x @ ''.00'')),
     float_truediv = (\<lambda>a b. if b = 0 then Inl (Exception ''float division by zero'')
                             else Inr (a div b)),
     librosa_time_stretch = (\<lambda>y r. if r \<le> 0 then Inl (Exception ''rate must be a positive number'')
                                    else Inr y),
     float_str = (\<lambda>x. str_int x @ ''.0''),
     librosa_pitch_shift = (\<lambda>y sr n. Inr y),
     np_multiply = (\<lambda>y k. Inr (map (\<lambda>x. x * k) y)),
     np_astype_int16 = (\<lambda>y. Inr (map word_of_int y)),
     np_tobytes = (\<lambda>ws. concat (map (\<lambda>w. [ucast w, ucast (drop_bit 8 w)]) ws)),
     seg_normalize = (\<lambda>seg. Inr seg),
     seg_export = (\<lambda>seg p fmt fs. (None, fs(p \<mapsto>
         \<lparr>container = fmt, nchannels = channels seg, sampwidth = sample_width seg,
          framerate = frame_rate seg, payload = raw_data seg\<rparr>)))\<rparr>"

definition empty_world :: world where
  "empty_world = \<lparr>files = Map.empty, stdout = []\<rparr>"

definition demo_world :: world where
  "demo_world = \<lparr>files = [''vocals.mp3'' \<mapsto>
      \<lparr>container = ''mp3'', nchannels = 2, sampwidth = 2, framerate = 44100,
       payload = [1, 2, 3]\<rparr>], stdout = []\<rparr>"

section \<open>Properties\<close>

lemma seq_Inl: "m w = (Inl e, w') \<Longrightarrow> seq m k w = (Inl e, w')"
  by (simp add: seq_def)

lemma seq_Inr: "m w = (Inr x, w') \<Longrightarrow> seq m k w = k x w'"
  by (simp add: seq_def)

lemma try_body_load_raises:
  assumes "librosa_load L (files w) input_path = Inl e"
  shows "try_body L input_path output_path target_bpm pitch_shift w = (Inl e, w)"
  unfolding try_body_def
  by (rule seq_Inl) (simp add: load_stmt_def assms)

text \<open>
  C1. When no file is at the input path, and the loader reports that as
  \<^verbatim>\<open>FileNotFoundError\<close>, the function prints its opening line and then the
  not-found message naming the path, changes no file (so it writes nothing at the
  output path), and returns: no exception leaves it.
\<close>

theorem missing_input_reported:
  assumes "loader_reports_missing L"
    and "files w input_path = None"
  shows "process_vocals_for_phonk L input_path output_path target_bpm pitch_shift w =
           (None, w\<lparr>stdout := stdout w @
              [''Starting vocal processing for phonk...'',
               ''Error: The audio file at '' @ [CHR 0x27] @ input_path @ [CHR 0x27]
               @ '' was not found. Please ensure it exists.'']\<rparr>)"
proof -
  from assms obtain m where
    "librosa_load L (files w) input_path = Inl (FileNotFoundError m)"
    unfolding loader_reports_missing_def by blast
  then have "try_body L input_path output_path target_bpm pitch_shift
               (w\<lparr>stdout := stdout w @ [''Starting vocal processing for phonk...'']\<rparr>)
             = (Inl (FileNotFoundError m),
                w\<lparr>stdout := stdout w @ [''Starting vocal processing for phonk...'']\<rparr>)"
    by (intro try_body_load_raises) simp
  then show ?thesis
    by (simp add: process_vocals_for_phonk_def seq_def py_print_def)
qed

lemma stub_lib_reports_missing: "loader_reports_missing stub_lib"
  by (simp add: loader_reports_missing_def stub_lib_def)

theorem missing_input_reported_witness:
  "loader_reports_missing stub_lib \<and> files empty_world ''vocals.mp3'' = None \<and>
   process_vocals_for_phonk stub_lib ''vocals.mp3'' ''processed_vocals.wav'' 65 (- 5) empty_world =
     (None, \<lparr>files = Map.empty, stdout =
        [''Starting vocal processing for phonk...'',
         ''Error: The audio file at '' @ [CHR 0x27] @ ''vocals.mp3'' @ [CHR 0x27]
         @ '' was not found. Please ensure it exists.'']\<rparr>)"
proof -
  have h: "files empty_world ''vocals.mp3'' = None"
    by (simp add: empty_world_def)
  show ?thesis
    using missing_input_reported [OF stub_lib_reports_missing h, of "''processed_vocals.wav''" 65 "- 5"]
      stub_lib_reports_missing h
    by (simp add: empty_world_def)
qed

subsection \<open>Runs that reach the end of the \<^verbatim>\<open>try\<close> block\<close>

lemma seqE:
  assumes "seq m k w = (Inr u, w')"
  obtains x w1 where "m w = (Inr x, w1)" and "k x w1 = (Inr u, w')"
  using assms unfolding seq_def by (cases "m w") (auto split: sum.splits)

lemma callE:
  assumes "call r w = (Inr x, w1)"
  obtains "r = Inr x" and "w1 = w"
  using assms unfolding call_def by blast

lemma py_printE:
  assumes "py_print s w = (Inr x, w1)"
  obtains "w1 = w\<lparr>stdout := stdout w @ [s]\<rparr>"
  using assms unfolding py_print_def by blast

lemma load_stmtE:
  assumes "load_stmt L p w = (Inr x, w1)"
  obtains "librosa_load L (files w) p = Inr x" and "w1 = w"
  using assms unfolding load_stmt_def by blast

lemma export_stmtE:
  assumes "export_stmt L seg p fmt w = (Inr x, w1)"
  obtains fs' where "seg_export L seg p fmt (files w) = (None, fs')"
    and "w1 = w\<lparr>files := fs'\<rparr>"
proof (cases "seg_export L seg p fmt (files w)")
  case (Pair r fs')
  show thesis
  proof (cases r)
    case None
    with Pair assms have "w1 = w\<lparr>files := fs'\<rparr>"
      unfolding export_stmt_def by simp
    with Pair None show thesis by (intro that) simp_all
  next
    case (Some e)
    with Pair assms show thesis
      unfolding export_stmt_def by simp
  qed
qed

lemma try_body_returns:
  assumes "try_body L input_path output_path target_bpm pitch_shift w = (Inr u, w')"
  obtains y sr bytes seg' fs' where
    "librosa_load L (files w) input_path = Inr (y, sr)"
    and "seg_normalize L \<lparr>raw_data = bytes, frame_rate = sr,
           sample_width = int16_itemsize, channels = 1\<rparr> = Inr seg'"
    and "seg_export L seg' output_path ''wav'' (files w) = (None, fs')"
    and "files w' = fs'"
  using assms
  unfolding try_body_def
  apply (elim seqE load_stmtE)
  apply (simp only: split_paired_all prod.case)
  apply (elim seqE callE py_printE export_stmtE)
  apply hypsubst
  apply (rule that)
     apply assumption
    apply assumption
   apply simp
  apply simp
  done

text \<open>
  C6. A run whose \<^verbatim>\<open>try\<close> block reaches its end has decoded the input at some
  rate \<open>sr\<close> and leaves at the output path a file in the WAV container with one
  channel, samples of two bytes (16 bits) and the frame rate \<open>sr\<close>, given that
  normalising keeps a segment's format and that exporting writes it into the header.
\<close>

theorem output_is_mono_16bit_wav:
  assumes "normalize_keeps_format L"
    and "export_writes_segment L"
    and "fst (try_body L input_path output_path target_bpm pitch_shift w) = Inr ()"
  shows "\<exists>y sr f. librosa_load L (files w) input_path = Inr (y, sr) \<and>
           files (snd (try_body L input_path output_path target_bpm pitch_shift w)) output_path
             = Some f \<and>
           container f = ''wav'' \<and> nchannels f = 1 \<and> 8 * sampwidth f = 16 \<and>
           framerate f = sr"
proof -
  obtain w' where run: "try_body L input_path output_path target_bpm pitch_shift w = (Inr (), w')"
    using assms(3) by (cases "try_body L input_path output_path target_bpm pitch_shift w") simp
  from run obtain y sr bytes seg' fs' where
    load: "librosa_load L (files w) input_path = Inr (y, sr)"
    and norm: "seg_normalize L \<lparr>raw_data = bytes, frame_rate = sr,
           sample_width = int16_itemsize, channels = 1\<rparr> = Inr seg'"
    and exp: "seg_export L seg' output_path ''wav'' (files w) = (None, fs')"
    and fs': "files w' = fs'"
    by (rule try_body_returns)
  from assms(1) norm have seg':
    "frame_rate seg' = sr" "sample_width seg' = int16_itemsize" "channels seg' = 1"
    unfolding normalize_keeps_format_def by fastforce+
  from assms(2) exp obtain f where f: "fs' output_path = Some f" "container f = ''wav''"
    "nchannels f = channels seg'" "sampwidth f = sample_width seg'"
    "framerate f = frame_rate seg'"
    unfolding export_writes_segment_def by blast
  from f seg' have "container f = ''wav'' \<and> nchannels f = 1 \<and> 8 * sampwidth f = 16 \<and>
      framerate f = sr"
    by (simp add: int16_itemsize_def)
  with load f(1) fs' run show ?thesis by simp
qed

lemma stub_lib_normalize: "normalize_keeps_format stub_lib"
  by (simp add: normalize_keeps_format_def stub_lib_def)

lemma stub_lib_export: "export_writes_segment stub_lib"
  by (auto simp add: export_writes_segment_def stub_lib_def)

lemma demo_run:
  "fst (try_body stub_lib ''vocals.mp3'' ''processed_vocals.wav'' 65 (- 5) demo_world) = Inr ()"
  by (simp add: try_body_def seq_def call_def py_print_def load_stmt_def export_stmt_def
      stub_lib_def demo_world_def)

theorem output_is_mono_16bit_wav_witness:
  "normalize_keeps_format stub_lib \<and> export_writes_segment stub_lib \<and>
   fst (try_body stub_lib ''vocals.mp3'' ''processed_vocals.wav'' 65 (- 5) demo_world) = Inr () \<and>
   (\<exists>y sr f. librosa_load stub_lib (files demo_world) ''vocals.mp3'' = Inr (y, sr) \<and>
      files (snd (try_body stub_lib ''vocals.mp3'' ''processed_vocals.wav'' 65 (- 5) demo_world))
        ''processed_vocals.wav'' = Some f \<and>
      container f = ''wav'' \<and> nchannels f = 1 \<and> 8 * sampwidth f = 16 \<and> framerate f = sr)"
  using output_is_mono_16bit_wav [OF stub_lib_normalize stub_lib_export demo_run]
    stub_lib_normalize stub_lib_export demo_run
  by blast

subsection \<open>The quantization step\<close>






end
